theory Spec2Isabelle
  imports Complex_Main
begin

section \<open>Characters and Python string helpers\<close>

text \<open>
  Strings are lists of characters. The helpers below cover the ASCII range; the
  source's unicode strings agree with them on ASCII text.
\<close>

definition bs :: char where
  "bs = CHR 0x5C"

definition is_digit :: "char \<Rightarrow> bool" where
  "is_digit c = (c \<in> set ''0123456789'')"

definition is_alnum :: "char \<Rightarrow> bool" where
  "is_alnum c =
     (c \<in> set ''abcdefghijklmnopqrstuvwxyzABCDEFGHIJKLMNOPQRSTUVWXYZ0123456789'')"

definition is_space :: "char \<Rightarrow> bool" where
  "is_space c = (c \<in> {CHR '' '', CHR 0x09, CHR 0x0A, CHR 0x0B, CHR 0x0C, CHR 0x0D})"

definition lower_char :: "char \<Rightarrow> char" where
  "lower_char c =
     (case map_of (zip ''ABCDEFGHIJKLMNOPQRSTUVWXYZ'' ''abcdefghijklmnopqrstuvwxyz'') c of
        Some l \<Rightarrow> l
      | None \<Rightarrow> c)"

text \<open>\<^verbatim>\<open>s.lower()\<close>\<close>

definition lower :: "string \<Rightarrow> string" where
  "lower s = map lower_char s"

text \<open>\<^verbatim>\<open>s.strip()\<close>: whitespace removed at both ends.\<close>

definition strip :: "string \<Rightarrow> string" where
  "strip s = rev (dropWhile is_space (rev (dropWhile is_space s)))"

text \<open>\<^verbatim>\<open>s.split(',')\<close>: always at least one piece, empty pieces kept.\<close>

fun split_comma :: "string \<Rightarrow> string list" where
  "split_comma [] = [[]]"
| "split_comma (c # cs) =
     (if c = CHR '','' then [] # split_comma cs
      else (case split_comma cs of
              w # ws \<Rightarrow> (c # w) # ws
            | [] \<Rightarrow> [[c]]))"

text \<open>Python truthiness of a nullable string: \<open>None\<close> and the empty string are false.\<close>

fun truthy :: "string option \<Rightarrow> bool" where
  "truthy None = False"
| "truthy (Some s) = (s \<noteq> [])"

section \<open>Numeric answers: splitting on the number pattern\<close>

text \<open>
  \<^verbatim>\<open>re.compile(r"(-?\d+(\.\d+)?)")\<close>. \<open>match_number s\<close> is the match of this pattern
  at the start of \<open>s\<close>: group 1, group 2 (\<open>None\<close> when the optional fraction did not
  take part), and the text after the match. The sign is taken only when a digit
  follows it, the digits are taken greedily, and the fraction only when a digit
  follows the dot.
\<close>

definition match_number :: "string \<Rightarrow> (string \<times> string option \<times> string) option" where
  "match_number s =
     (let (sign, s1) =
            (case s of
               c # t \<Rightarrow> if c = CHR ''-'' then ([c], t) else ([], s)
             | [] \<Rightarrow> ([], s));
          ds = takeWhile is_digit s1;
          r1 = dropWhile is_digit s1
      in if ds = [] then None
         else (case r1 of
                 c # t \<Rightarrow>
                   if c = CHR ''.'' \<and> takeWhile is_digit t \<noteq> []
                   then Some (sign @ ds @ c # takeWhile is_digit t,
                              Some (c # takeWhile is_digit t),
                              dropWhile is_digit t)
                   else Some (sign @ ds, None, r1)
               | [] \<Rightarrow> Some (sign @ ds, None, [])))"

lemma dropWhile_shorter:
  "takeWhile P t \<noteq> [] \<Longrightarrow> length (dropWhile P t) < length t"
  by (cases t) (auto simp: le_imp_less_Suc length_dropWhile_le split: if_splits)

lemma dropWhile_tail_shorter:
  "dropWhile P t = d # u \<Longrightarrow> length (dropWhile Q u) < length t"
proof -
  assume e: "dropWhile P t = d # u"
  have "length (dropWhile Q u) \<le> length u" by (rule length_dropWhile_le)
  also have "length u < length (dropWhile P t)" by (simp add: e)
  also have "length (dropWhile P t) \<le> length t" by (rule length_dropWhile_le)
  finally show ?thesis .
qed

lemma match_number_shorter:
  assumes m: "match_number s = Some (g1, g2, rest)"
  shows "length rest < length s"
proof -
  define s1 where "s1 = (case s of c # t \<Rightarrow> if c = CHR ''-'' then t else s | [] \<Rightarrow> s)"
  have s1: "length s1 \<le> length s"
    by (auto simp: s1_def split: list.splits)
  from m have nz: "takeWhile is_digit s1 \<noteq> []"
    by (auto simp: match_number_def s1_def Let_def split: list.splits if_splits)
  from m have "dropWhile is_digit s1 = rest \<or>
      (\<exists>d u. dropWhile is_digit s1 = d # u \<and> rest = dropWhile is_digit u)"
    by (auto simp: match_number_def s1_def Let_def split: list.splits if_splits)
  then have "length rest < length s1"
    using dropWhile_shorter [OF nz] by (auto dest: dropWhile_tail_shorter)
  with s1 show ?thesis by simp
qed

text \<open>
  \<^verbatim>\<open>regex.split(text)\<close>: the text before each match, then the two groups of the match,
  and at the end the text after the last match. \<open>acc\<close> holds, reversed, the text read
  since the last match.
\<close>

function regex_split_from :: "string \<Rightarrow> string \<Rightarrow> string option list" where
  "regex_split_from acc [] = [Some (rev acc)]"
| "regex_split_from acc (c # cs) =
     (case match_number (c # cs) of
        Some (g1, g2, rest) \<Rightarrow> Some (rev acc) # Some g1 # g2 # regex_split_from [] rest
      | None \<Rightarrow> regex_split_from (c # acc) cs)"
  by pat_completeness auto
termination
  by (relation "measure (\<lambda>(acc, s). length s)") (auto dest: match_number_shorter)

definition regex_split :: "string \<Rightarrow> string option list" where
  "regex_split s = regex_split_from [] s"

text \<open>
  \<^verbatim>\<open>float(msg_parts[1])\<close>, for a string of the shape the number pattern matches (an
  optional sign, digits, an optional dot with digits). The value is kept as the exact
  decimal the string denotes; Python rounds it to the nearest double.
\<close>

definition nat_of_digits :: "string \<Rightarrow> nat" where
  "nat_of_digits ds = foldl (\<lambda>n c. 10 * n + (of_char c - 48)) 0 ds"

definition py_float :: "string \<Rightarrow> rat" where
  "py_float s =
     (let (neg, t) =
            (case s of
               c # r \<Rightarrow> if c = CHR ''-'' then (True, r) else (False, s)
             | [] \<Rightarrow> (False, s));
          ip = takeWhile is_digit t;
          fp = drop 1 (dropWhile is_digit t);
          v = of_nat (nat_of_digits ip) + of_nat (nat_of_digits fp) / 10 ^ length fp
      in if neg then - v else v)"

section \<open>Data model\<close>

text \<open>
  \<open>Rule\<close>: the stored pattern \<open>regex\<close>, the kind \<open>rule_type\<close> (\<open>sw\<close>, \<open>c\<close>, \<open>r\<close>),
  the raw string \<open>rule_string\<close> (nullable) and the word-list kind \<open>rule\<close> (nullable;
  1 is contains-all-of, 2 is contains-one-of).
\<close>

record Rule =
  regex :: string
  rule_type :: string
  rule_string :: "string option"
  rule :: "int option"

text \<open>
  \<open>Category\<close>. \<open>cat_pk\<close> is the primary key (\<open>None\<close> before the first save),
  \<open>cat_poll\<close> the poll it belongs to, \<open>cat_response\<close> the reply text, and \<open>rules\<close> the
  rows \<^verbatim>\<open>category.rules.all()\<close> yields, in that order.
\<close>

record Category =
  cat_pk :: "nat option"
  cat_name :: string
  cat_poll :: nat
  priority :: "nat option"
  is_default :: bool
  cat_response :: "string option"
  error_category :: bool
  rules :: "Rule list"

text \<open>
  \<open>ResponseCategory\<close>: one assignment row. \<open>rc_category\<close> is the object the foreign key
  resolves to, \<open>rc_response\<close> the primary key of the response.
\<close>

record ResponseCategory =
  rc_category :: Category
  rc_response :: nat
  is_override :: bool
  user :: "nat option"

datatype eav_value = Text string | Float rat | Object string

record Response =
  resp_pk :: nat
  has_errors :: bool
  poll_text_value :: "eav_value option"
  poll_number_value :: "eav_value option"
  poll_location_value :: "eav_value option"

text \<open>
  \<open>Poll\<close>: \<open>categories\<close> is the list \<^verbatim>\<open>self.categories.all()\<close> yields (the model orders
  categories by name).
\<close>

record Poll =
  poll_pk :: nat
  poll_type :: "string option"
  default_response :: "string option"
  categories :: "Category list"

definition TYPE_TEXT :: string where "TYPE_TEXT = ''t''"
definition TYPE_NUMERIC :: string where "TYPE_NUMERIC = ''n''"
definition TYPE_LOCATION :: string where "TYPE_LOCATION = ''l''"
definition TYPE_REGISTRATION :: string where "TYPE_REGISTRATION = ''r''"

text \<open>An incoming message: its text and the language of the sender's contact, if any.\<close>

record message =
  message_text :: string
  language :: "string option"

subsection \<open>Collaborators outside the source file\<close>

text \<open>
  What a registered parser does with a text: a cleaned value, or a
  \<open>ValidationError\<close> with its messages.
\<close>

datatype parse_result = Cleaned eav_value | ValidationError "string list"

datatype attr_type = Attribute_TYPE_TEXT | Attribute_TYPE_FLOAT | Attribute_TYPE_INT
  | Attribute_TYPE_OBJECT | Attribute_TYPE_other

record type_choice =
  parser :: "(string \<Rightarrow> parse_result) option"
  db_type :: attr_type

text \<open>
  The environment holds what the source takes from libraries and the database:
  \<^item> \<open>re_compile p\<close> is \<^verbatim>\<open>re.compile(p, re.IGNORECASE | re.UNICODE)\<close>: \<open>None\<close> when the
    pattern is malformed and \<^verbatim>\<open>re.error\<close> is raised, otherwise the \<^verbatim>\<open>search\<close> function
    of the compiled pattern;
  \<^item> \<open>TYPE_CHOICES\<close> is the registry of poll types;
  \<^item> \<open>gettext_db language field\<close> is the translation lookup;
  \<^item> \<open>nulls_first\<close> says where the database puts null priorities in an ascending
    \<^verbatim>\<open>order_by\<close> (PostgreSQL and Oracle last, SQLite and MySQL first).
\<close>

record env =
  re_compile :: "string \<Rightarrow> (string \<Rightarrow> bool) option"
  TYPE_CHOICES :: "string \<Rightarrow> type_choice option"
  gettext_db :: "string \<Rightarrow> string \<Rightarrow> string"
  nulls_first :: bool

datatype error =
    ReError string
  | MultipleObjectsReturned
  | KeyError string
  | TypeError
  | AttributeError
  | IntegrityError

section \<open>\<open>Poll.process_response\<close>\<close>

text \<open>
  The state of one call: the response being built, the assignment rows created for it
  (\<^verbatim>\<open>resp.categories\<close>, in creation order) and \<^verbatim>\<open>outgoing_message\<close>.
\<close>

type_synonym pr_state = "Response \<times> ResponseCategory list \<times> string option"

definition new_rc :: "Response \<Rightarrow> Category \<Rightarrow> ResponseCategory" where
  "new_rc resp c =
     \<lparr>rc_category = c, rc_response = resp_pk resp, is_override = False, user = None\<rparr>"

text \<open>
  The loop over the rules of one category (the inner \<^verbatim>\<open>for rule in category.rules.all()\<close>
  of the text branch). Every rule is compiled and searched; each match creates a row.
\<close>

fun match_rules :: "env \<Rightarrow> string \<Rightarrow> Category \<Rightarrow> Rule list \<Rightarrow> pr_state \<Rightarrow> error + pr_state" where
  "match_rules E txt c [] st = Inr st"
| "match_rules E txt c (r # rs) (resp, rcs, out) =
     (case re_compile E (regex r) of
        None \<Rightarrow> Inl (ReError (regex r))
      | Some found \<Rightarrow>
          if found (lower txt)
          then match_rules E txt c rs
                 (if error_category c then resp\<lparr>has_errors := True\<rparr> else resp,
                  rcs @ [new_rc resp c],
                  if truthy (cat_response c) then cat_response c else out)
          else match_rules E txt c rs (resp, rcs, out))"

text \<open>The loop over the categories of the poll.\<close>

fun match_categories :: "env \<Rightarrow> string \<Rightarrow> Category list \<Rightarrow> pr_state \<Rightarrow> error + pr_state" where
  "match_categories E txt [] st = Inr st"
| "match_categories E txt (c # cs) st =
     (case match_rules E txt c (rules c) st of
        Inl e \<Rightarrow> Inl e
      | Inr st' \<Rightarrow> match_categories E txt cs st')"

text \<open>\<^verbatim>\<open>self.categories.get(default=True)\<close>, called only when such a category exists.\<close>

definition get_default :: "Category list \<Rightarrow> error + Category" where
  "get_default cats =
     (case filter is_default cats of
        [d] \<Rightarrow> Inr d
      | _ \<Rightarrow> Inl MultipleObjectsReturned)"

text \<open>The branch on the poll type (lines 413 to 469).\<close>

definition parse_answer :: "env \<Rightarrow> Poll \<Rightarrow> message \<Rightarrow> pr_state \<Rightarrow> error + pr_state" where
  "parse_answer E p m st =
     (case st of (resp, rcs, out) \<Rightarrow>
      if poll_type p = Some TYPE_LOCATION then
        (case TYPE_CHOICES E TYPE_LOCATION of
           None \<Rightarrow> Inl (KeyError TYPE_LOCATION)
         | Some td \<Rightarrow>
             (case parser td of
                None \<Rightarrow> Inl TypeError
              | Some f \<Rightarrow>
                  (case f (message_text m) of
                     Cleaned v \<Rightarrow> Inr (resp\<lparr>poll_location_value := Some v\<rparr>, rcs, out)
                   | ValidationError msgs \<Rightarrow> Inr (resp\<lparr>has_errors := True\<rparr>, rcs, out))))
      else if poll_type p = Some TYPE_NUMERIC then
        (let msg_parts = regex_split (message_text m)
         in if length msg_parts = 4
            then (case msg_parts ! 1 of
                    Some g \<Rightarrow> Inr (resp\<lparr>poll_number_value := Some (Float (py_float g))\<rparr>, rcs, out)
                  | None \<Rightarrow> Inl TypeError)
            else Inr (resp\<lparr>has_errors := True\<rparr>, rcs, out))
      else if poll_type p = Some TYPE_TEXT \<or> poll_type p = Some TYPE_REGISTRATION then
        match_categories E (message_text m) (categories p)
          (resp\<lparr>poll_text_value := Some (Text (message_text m))\<rparr>, rcs, out)
      else
        (case poll_type p of
           None \<Rightarrow> Inr st
         | Some ty \<Rightarrow>
             (case TYPE_CHOICES E ty of
                None \<Rightarrow> Inr st
              | Some td \<Rightarrow>
                  (case parser td of
                     None \<Rightarrow> Inl TypeError
                   | Some f \<Rightarrow>
                       (case f (message_text m) of
                          Cleaned v \<Rightarrow>
                            if db_type td = Attribute_TYPE_TEXT
                            then Inr (resp\<lparr>poll_text_value := Some v\<rparr>, rcs, out)
                            else if db_type td = Attribute_TYPE_FLOAT \<or> db_type td = Attribute_TYPE_INT
                            then Inr (resp\<lparr>poll_number_value := Some v\<rparr>, rcs, out)
                            else if db_type td = Attribute_TYPE_OBJECT
                            then Inr (resp\<lparr>poll_location_value := Some v\<rparr>, rcs, out)
                            else Inr st
                        | ValidationError msgs \<Rightarrow>
                            Inr (resp\<lparr>has_errors := True\<rparr>, rcs,
                                 (case msgs of [] \<Rightarrow> None | m0 # _ \<Rightarrow> Some m0)))))))"

text \<open>The default-category fallback (lines 472 to 477).\<close>

definition default_fallback :: "Category list \<Rightarrow> pr_state \<Rightarrow> error + pr_state" where
  "default_fallback cats st =
     (case st of (resp, rcs, out) \<Rightarrow>
      if rcs = [] \<and> filter is_default cats \<noteq> []
      then (case get_default cats of
              Inl e \<Rightarrow> Inl e
            | Inr d \<Rightarrow>
                Inr (if error_category d then resp\<lparr>has_errors := True\<rparr> else resp,
                     [new_rc resp d],
                     if error_category d then cat_response d else out))
      else Inr st)"

text \<open>
  \<^verbatim>\<open>resp.categories.order_by('category__priority')\<close>: ascending priority, null priorities
  where the database puts them; rows of equal priority keep their creation order.
\<close>

definition priority_le :: "bool \<Rightarrow> nat option \<Rightarrow> nat option \<Rightarrow> bool" where
  "priority_le nf a b =
     (case (a, b) of
        (None, None) \<Rightarrow> True
      | (None, Some y) \<Rightarrow> nf
      | (Some x, None) \<Rightarrow> \<not> nf
      | (Some x, Some y) \<Rightarrow> x \<le> y)"

fun insert_by_priority :: "bool \<Rightarrow> ResponseCategory \<Rightarrow> ResponseCategory list \<Rightarrow> ResponseCategory list" where
  "insert_by_priority nf x [] = [x]"
| "insert_by_priority nf x (y # ys) =
     (if priority_le nf (priority (rc_category x)) (priority (rc_category y))
      then x # y # ys
      else y # insert_by_priority nf x ys)"

definition order_by_priority :: "bool \<Rightarrow> ResponseCategory list \<Rightarrow> ResponseCategory list" where
  "order_by_priority nf rcs = foldr (insert_by_priority nf) rcs []"

text \<open>The scan for the first assigned category with a reply (lines 480 to 483).\<close>

fun first_reply :: "ResponseCategory list \<Rightarrow> string option" where
  "first_reply [] = None"
| "first_reply (rc # rcs) =
     (if truthy (cat_response (rc_category rc)) then cat_response (rc_category rc)
      else first_reply rcs)"

definition select_reply :: "env \<Rightarrow> pr_state \<Rightarrow> pr_state" where
  "select_reply E st =
     (case st of (resp, rcs, out) \<Rightarrow>
      if \<not> has_errors resp \<or> \<not> truthy out
      then (case first_reply (order_by_priority (nulls_first E) rcs) of
              Some r \<Rightarrow> (resp, rcs, Some r)
            | None \<Rightarrow> st)
      else st)"

text \<open>
  \<open>process_response E p pk m\<close>: \<open>pk\<close> is the primary key the database gives the new
  response. The result is the response, its assignment rows and the reply.
\<close>

definition process_response :: "env \<Rightarrow> Poll \<Rightarrow> nat \<Rightarrow> message \<Rightarrow> error + pr_state" where
  "process_response E p pk m =
     (let resp = \<lparr>resp_pk = pk, has_errors = False, poll_text_value = None,
                   poll_number_value = None, poll_location_value = None\<rparr>
      in case parse_answer E p m (resp, [], default_response p) of
           Inl e \<Rightarrow> Inl e
         | Inr st1 \<Rightarrow>
             (case default_fallback (categories p) st1 of
                Inl e \<Rightarrow> Inl e
              | Inr st2 \<Rightarrow>
                  (case select_reply E st2 of (resp', rcs, out) \<Rightarrow>
                   if \<not> truthy out then Inr (resp', rcs, None)
                   else if truthy (language m)
                   then Inr (resp', rcs, map_option (gettext_db E (the (language m))) out)
                   else Inr (resp', rcs, out))))"

section \<open>The rule compiler: \<open>Rule.get_regex\<close>, \<open>Rule.update_regex\<close>, \<open>Rule.save\<close>\<close>

text \<open>
  \<^verbatim>\<open>re.escape\<close>: every character that is not an ASCII letter or digit gets a backslash
  (the NUL character becomes a backslash and three zeros).
\<close>

definition re_escape :: "string \<Rightarrow> string" where
  "re_escape s =
     concat (map (\<lambda>c. if is_alnum c then [c]
                        else if c = CHR 0x00 then bs # ''000''
                        else [bs, c]) s)"

definition all_template :: "string \<Rightarrow> string" where
  "all_template w = ''(?=.*'' @ [bs] @ ''b'' @ w @ [bs] @ ''b)''"

definition one_template :: "string \<Rightarrow> string" where
  "one_template w = ''('' @ [bs] @ ''b'' @ w @ [bs] @ ''b)''"

text \<open>The loop of the contains-all-of branch.\<close>

fun all_words :: "string list \<Rightarrow> string \<Rightarrow> string" where
  "all_words [] w_regex = w_regex"
| "all_words (word # words) w_regex =
     all_words words
       (if length word \<noteq> 0 then w_regex @ all_template (re_escape (strip word)) else w_regex)"

text \<open>The loop of the contains-one-of branch.\<close>

fun one_words :: "string list \<Rightarrow> string \<Rightarrow> string" where
  "one_words [] w_regex = w_regex"
| "one_words (word # words) w_regex =
     one_words words
       (if length w_regex \<noteq> 0
        then (if length word \<noteq> 0
              then w_regex @ ''|'' @ one_template (re_escape (strip word))
              else w_regex)
        else (if length word \<noteq> 0
              then w_regex @ one_template (re_escape (strip word))
              else w_regex))"

text \<open>
  \<open>get_regex\<close>: \<^verbatim>\<open>self.rule_string.split(',')\<close> raises \<open>AttributeError\<close> on a null
  raw string; a \<open>rule\<close> other than 1 and 2 falls off the end and returns \<open>None\<close>.
\<close>

definition get_regex :: "Rule \<Rightarrow> error + string option" where
  "get_regex r =
     (case rule_string r of
        None \<Rightarrow> Inl AttributeError
      | Some rs \<Rightarrow>
          (let words = split_comma rs
           in if rule r = Some 1 then Inr (Some (all_words words []))
              else if rule r = Some 2 then Inr (Some (one_words words []))
              else Inr None))"

text \<open>
  \<open>Rule.save\<close>: the pattern is recomputed only when \<open>rule\<close> is set (not null, not 0).
  The \<open>regex\<close> column does not accept null, so storing the \<open>None\<close> that \<open>get_regex\<close>
  returns for other kinds fails in the database.
\<close>

definition Rule_save :: "Rule \<Rightarrow> error + Rule" where
  "Rule_save r =
     (if rule r \<noteq> None \<and> rule r \<noteq> Some 0
      then (case get_regex r of
              Inl e \<Rightarrow> Inl e
            | Inr None \<Rightarrow> Inl IntegrityError
            | Inr (Some w_regex) \<Rightarrow> Inr (r\<lparr>regex := w_regex\<rparr>))
      else Inr r)"

definition TYPE_STARTSWITH :: string where "TYPE_STARTSWITH = ''sw''"
definition TYPE_CONTAINS :: string where "TYPE_CONTAINS = ''c''"
definition TYPE_REGEX :: string where "TYPE_REGEX = ''r''"

text \<open>\<^verbatim>\<open>'%s' % x\<close> for a nullable string: null is printed as \<open>None\<close>.\<close>

definition percent_s :: "string option \<Rightarrow> string" where
  "percent_s x = (case x of None \<Rightarrow> ''None'' | Some s \<Rightarrow> s)"

definition STARTSWITH_PATTERN_TEMPLATE :: "string \<Rightarrow> string" where
  "STARTSWITH_PATTERN_TEMPLATE x =
     ''^'' @ [bs] @ ''s*('' @ x @ '')('' @ [bs] @ ''s|[^a-zA-Z]|$)''"

definition CONTAINS_PATTERN_TEMPLATE :: "string \<Rightarrow> string" where
  "CONTAINS_PATTERN_TEMPLATE x =
     ''^.*'' @ [bs] @ ''s*('' @ x @ '')('' @ [bs] @ ''s|[^a-zA-Z]|$)''"

text \<open>
  \<open>update_regex\<close>. With the regex kind and a null raw string the null is assigned to
  \<open>regex\<close>; the record keeps the stored string in that case, as the column cannot hold it.
\<close>

definition update_regex :: "Rule \<Rightarrow> Rule" where
  "update_regex r =
     (if rule_type r = TYPE_STARTSWITH
      then r\<lparr>regex := STARTSWITH_PATTERN_TEMPLATE (percent_s (rule_string r))\<rparr>
      else if rule_type r = TYPE_CONTAINS
      then r\<lparr>regex := CONTAINS_PATTERN_TEMPLATE (percent_s (rule_string r))\<rparr>
      else if rule_type r = TYPE_REGEX
      then (case rule_string r of Some s \<Rightarrow> r\<lparr>regex := s\<rparr> | None \<Rightarrow> r)
      else r)"

section \<open>A model of the \<^verbatim>\<open>re\<close> library on a subset of its pattern syntax\<close>

text \<open>
  The source hands every stored pattern to Python's \<^verbatim>\<open>re\<close> module. The general results
  below hold for any behaviour of that module (the \<open>re_compile\<close> field of the
  environment). For the concrete inputs a model of the module is needed; it covers:
  literal characters, escaped punctuation, \<^verbatim>\<open>.\<close>, \<^verbatim>\<open>\b\<close>, \<^verbatim>\<open>*\<close> after a single
  character or dot, \<^verbatim>\<open>|\<close>, groups \<^verbatim>\<open>( )\<close> and lookaheads \<^verbatim>\<open>(?= )\<close>. Matching ignores
  case, as with \<^verbatim>\<open>re.IGNORECASE\<close>.
\<close>

datatype atom = Lit char | Dot

datatype rx = Atom atom | Star atom | WordB | Group "rx list list" | Look "rx list list"

definition atom_ok :: "atom \<Rightarrow> char \<Rightarrow> bool" where
  "atom_ok a x = (case a of Lit c \<Rightarrow> lower_char c = lower_char x | Dot \<Rightarrow> x \<noteq> CHR 0x0A)"

definition is_word :: "char option \<Rightarrow> bool" where
  "is_word x = (case x of None \<Rightarrow> False | Some c \<Rightarrow> is_alnum c \<or> c = CHR ''_'')"

definition at_boundary :: "char option \<Rightarrow> string \<Rightarrow> bool" where
  "at_boundary prev s = (is_word prev \<noteq> is_word (case s of [] \<Rightarrow> None | x # _ \<Rightarrow> Some x))"

text \<open>
  Backtracking matcher. \<open>prev\<close> is the character before the current position, \<open>k\<close> the
  continuation that decides whether the rest of the pattern matches from where this part
  stops.
\<close>

fun star :: "atom \<Rightarrow> (char option \<Rightarrow> string \<Rightarrow> bool) \<Rightarrow> char option \<Rightarrow> string \<Rightarrow> bool" where
  "star a k prev [] = k prev []"
| "star a k prev (x # xs) = ((atom_ok a x \<and> star a k (Some x) xs) \<or> k prev (x # xs))"

fun rx_match :: "rx \<Rightarrow> (char option \<Rightarrow> string \<Rightarrow> bool) \<Rightarrow> char option \<Rightarrow> string \<Rightarrow> bool"
  and seq_match :: "rx list \<Rightarrow> (char option \<Rightarrow> string \<Rightarrow> bool) \<Rightarrow> char option \<Rightarrow> string \<Rightarrow> bool"
  and alt_match :: "rx list list \<Rightarrow> (char option \<Rightarrow> string \<Rightarrow> bool) \<Rightarrow> char option \<Rightarrow> string \<Rightarrow> bool"
where
  "rx_match (Atom a) k prev s =
     (case s of [] \<Rightarrow> False | x # xs \<Rightarrow> atom_ok a x \<and> k (Some x) xs)"
| "rx_match (Star a) k prev s = star a k prev s"
| "rx_match WordB k prev s = (at_boundary prev s \<and> k prev s)"
| "rx_match (Group alts) k prev s = alt_match alts k prev s"
| "rx_match (Look alts) k prev s = (alt_match alts (\<lambda>_ _. True) prev s \<and> k prev s)"
| "seq_match [] k prev s = k prev s"
| "seq_match (r # rs) k prev s = rx_match r (\<lambda>prev' s'. seq_match rs k prev' s') prev s"
| "alt_match [] k prev s = False"
| "alt_match (sq # alts) k prev s = (seq_match sq k prev s \<or> alt_match alts k prev s)"

text \<open>\<^verbatim>\<open>pattern.search(s)\<close>: a match starting at some position of \<open>s\<close>.\<close>

fun search_from :: "rx list list \<Rightarrow> char option \<Rightarrow> string \<Rightarrow> bool" where
  "search_from p prev [] = alt_match p (\<lambda>_ _. True) prev []"
| "search_from p prev (x # xs) =
     (alt_match p (\<lambda>_ _. True) prev (x # xs) \<or> search_from p (Some x) xs)"

definition search :: "rx list list \<Rightarrow> string \<Rightarrow> bool" where
  "search p s = search_from p None s"

text \<open>
  Reading a pattern. \<open>Malformed\<close> is a pattern on which \<^verbatim>\<open>re.compile\<close> raises
  \<^verbatim>\<open>re.error\<close> (unbalanced parentheses, nothing to repeat, a repeated repeat, a
  backslash at the end); \<open>Unsupported\<close> is a pattern outside the subset, of which the
  model says nothing. A frame of the stack is an open group: whether it is a lookahead,
  its finished alternatives and the sequence being read.
\<close>

datatype parsed = Pattern "rx list list" | Malformed | Unsupported

type_synonym frame = "bool \<times> rx list list \<times> rx list"

fun parse_re :: "string \<Rightarrow> frame list \<Rightarrow> parsed" where
  "parse_re [] st =
     (case st of [(lk, alts, sq)] \<Rightarrow> Pattern (alts @ [sq]) | _ \<Rightarrow> Malformed)"
| "parse_re (c # cs) [] = Malformed"
| "parse_re (c # cs) ((lk, alts, sq) # below) =
     (if c = CHR ''('' then
        (case cs of
           [] \<Rightarrow> Malformed
         | d # ds \<Rightarrow>
             if d = CHR ''?'' then
               (case ds of
                  [] \<Rightarrow> Malformed
                | e # es \<Rightarrow>
                    if e = CHR ''='' then parse_re es ((True, [], []) # (lk, alts, sq) # below)
                    else Unsupported)
             else parse_re cs ((False, [], []) # (lk, alts, sq) # below))
      else if c = CHR '')'' then
        (case below of
           [] \<Rightarrow> Malformed
         | (lk', alts', sq') # below' \<Rightarrow>
             parse_re cs
               ((lk', alts',
                 sq' @ [if lk then Look (alts @ [sq]) else Group (alts @ [sq])]) # below'))
      else if c = CHR ''|'' then parse_re cs ((lk, alts @ [sq], []) # below)
      else if c = CHR ''*'' then
        (case rev sq of
           [] \<Rightarrow> Malformed
         | Atom a # r \<Rightarrow> parse_re cs ((lk, alts, rev r @ [Star a]) # below)
         | Star a # r \<Rightarrow> Malformed
         | _ \<Rightarrow> Unsupported)
      else if c = CHR ''.'' then parse_re cs ((lk, alts, sq @ [Atom Dot]) # below)
      else if c = bs then
        (case cs of
           [] \<Rightarrow> Malformed
         | d # ds \<Rightarrow>
             if d = CHR ''b'' then parse_re ds ((lk, alts, sq @ [WordB]) # below)
             else if is_alnum d then Unsupported
             else parse_re ds ((lk, alts, sq @ [Atom (Lit d)]) # below))
      else if c \<in> set ''[]+?{}^$'' then Unsupported
      else parse_re cs ((lk, alts, sq @ [Atom (Lit c)]) # below))"

text \<open>
  The model of \<^verbatim>\<open>re.compile(p, re.IGNORECASE | re.UNICODE)\<close> used at concrete inputs. It
  is meant for patterns that are malformed or inside the subset; every concrete result
  below states which of the two its patterns are.
\<close>

definition re_model :: "string \<Rightarrow> (string \<Rightarrow> bool) option" where
  "re_model p = (case parse_re p [(False, [], [])] of Pattern r \<Rightarrow> Some (search r) | _ \<Rightarrow> None)"

definition model_env :: env where
  "model_env = \<lparr>re_compile = re_model, TYPE_CHOICES = (\<lambda>_. None),
                  gettext_db = (\<lambda>language field. field), nulls_first = False\<rparr>"

section \<open>\<open>Poll.reprocess_responses\<close>\<close>

text \<open>
  The table of assignment rows is a list in creation order. \<open>assigned resp c tbl\<close> is
  \<^verbatim>\<open>resp.categories.filter(category=c).count()\<close> being nonzero.
\<close>

definition rows_of :: "Response \<Rightarrow> ResponseCategory list \<Rightarrow> ResponseCategory list" where
  "rows_of resp tbl = filter (\<lambda>rc. rc_response rc = resp_pk resp) tbl"

definition assigned :: "Response \<Rightarrow> Category \<Rightarrow> ResponseCategory list \<Rightarrow> bool" where
  "assigned resp c tbl = (\<exists>rc \<in> set (rows_of resp tbl). cat_pk (rc_category rc) = cat_pk c)"

text \<open>
  The loop over the rules of one category. The pattern is compiled before the text value
  is looked at; a match on a category not yet assigned creates the row and leaves the
  loop (\<^verbatim>\<open>break\<close>).
\<close>

fun reprocess_rules ::
  "env \<Rightarrow> Category \<Rightarrow> Rule list \<Rightarrow> Response \<times> ResponseCategory list
     \<Rightarrow> error + Response \<times> ResponseCategory list" where
  "reprocess_rules E c [] (resp, tbl) = Inr (resp, tbl)"
| "reprocess_rules E c (r # rs) (resp, tbl) =
     (case re_compile E (regex r) of
        None \<Rightarrow> Inl (ReError (regex r))
      | Some found \<Rightarrow>
          (case poll_text_value resp of
             None \<Rightarrow> reprocess_rules E c rs (resp, tbl)
           | Some (Text txt) \<Rightarrow>
               if txt \<noteq> [] then
                 (if found (lower txt) \<and> \<not> assigned resp c tbl
                  then Inr (if error_category c then resp\<lparr>has_errors := True\<rparr> else resp,
                            tbl @ [new_rc resp c])
                  else reprocess_rules E c rs (resp, tbl))
               else reprocess_rules E c rs (resp, tbl)
           | Some (Float x) \<Rightarrow>
               if x \<noteq> 0 then Inl AttributeError else reprocess_rules E c rs (resp, tbl)
           | Some (Object x) \<Rightarrow> Inl AttributeError))"

fun reprocess_categories ::
  "env \<Rightarrow> Category list \<Rightarrow> Response \<times> ResponseCategory list
     \<Rightarrow> error + Response \<times> ResponseCategory list" where
  "reprocess_categories E [] st = Inr st"
| "reprocess_categories E (c # cs) st =
     (case reprocess_rules E c (rules c) st of
        Inl e \<Rightarrow> Inl e
      | Inr st' \<Rightarrow> reprocess_categories E cs st')"

text \<open>The body of the loop over the responses (lines 383 to 399).\<close>

definition reprocess_response ::
  "env \<Rightarrow> Poll \<Rightarrow> Response \<Rightarrow> ResponseCategory list
     \<Rightarrow> error + Response \<times> ResponseCategory list" where
  "reprocess_response E p resp tbl =
     (case reprocess_categories E (categories p) (resp\<lparr>has_errors := False\<rparr>, tbl) of
        Inl e \<Rightarrow> Inl e
      | Inr (resp1, tbl1) \<Rightarrow>
          if rows_of resp1 tbl1 = [] \<and> filter is_default (categories p) \<noteq> []
          then (case get_default (categories p) of
                  Inl e \<Rightarrow> Inl e
                | Inr d \<Rightarrow>
                    Inr (if error_category d then resp1\<lparr>has_errors := True\<rparr> else resp1,
                         tbl1 @ [new_rc resp1 d]))
          else Inr (resp1, tbl1))"

fun reprocess_loop ::
  "env \<Rightarrow> Poll \<Rightarrow> Response list \<Rightarrow> Response list \<times> ResponseCategory list
     \<Rightarrow> error + Response list \<times> ResponseCategory list" where
  "reprocess_loop E p [] st = Inr st"
| "reprocess_loop E p (resp # resps) (done, tbl) =
     (case reprocess_response E p resp tbl of
        Inl e \<Rightarrow> Inl e
      | Inr (resp', tbl') \<Rightarrow> reprocess_loop E p resps (done @ [resp'], tbl'))"

text \<open>
  \<open>reprocess_responses E p resps tbl\<close>: \<open>resps\<close> is \<^verbatim>\<open>self.responses.all()\<close>, \<open>tbl\<close> the
  table of assignment rows. First every row of a category of this poll that is not an
  override is deleted. The result is the saved responses and the new table.
\<close>

definition reprocess_responses ::
  "env \<Rightarrow> Poll \<Rightarrow> Response list \<Rightarrow> ResponseCategory list
     \<Rightarrow> error + Response list \<times> ResponseCategory list" where
  "reprocess_responses E p resps tbl =
     reprocess_loop E p resps
       ([], filter (\<lambda>rc. \<not> (cat_poll (rc_category rc) = poll_pk p \<and> \<not> is_override rc)) tbl)"

section \<open>\<open>Category.save\<close>\<close>

text \<open>
  The table of categories is a list of rows, each with a primary key.
  \<open>Model_save\<close> is the inherited save: a row with the same key is replaced, a category
  without a key is inserted under a fresh one.
\<close>

definition fresh_pk :: "Category list \<Rightarrow> nat" where
  "fresh_pk tbl = Suc (fold max (map (\<lambda>x. case cat_pk x of None \<Rightarrow> 0 | Some k \<Rightarrow> k) tbl) 0)"

definition Model_save :: "Category \<Rightarrow> Category list \<Rightarrow> Category list" where
  "Model_save c tbl =
     (case cat_pk c of
        None \<Rightarrow> tbl @ [c\<lparr>cat_pk := Some (fresh_pk tbl)\<rparr>]
      | Some k \<Rightarrow>
          if \<exists>x \<in> set tbl. cat_pk x = Some k
          then map (\<lambda>x. if cat_pk x = Some k then c else x) tbl
          else tbl @ [c])"

text \<open>
  \<open>other_default c x\<close>: row \<open>x\<close> is in
  \<^verbatim>\<open>self.poll.categories.exclude(pk=self.pk).filter(default=True)\<close>.
\<close>

definition other_default :: "Category \<Rightarrow> Category \<Rightarrow> bool" where
  "other_default c x = (cat_poll x = cat_poll c \<and> cat_pk x \<noteq> cat_pk c \<and> is_default x)"

definition Category_save :: "Category \<Rightarrow> Category list \<Rightarrow> Category list" where
  "Category_save c tbl =
     Model_save c
       (if is_default c \<and> (\<exists>x \<in> set tbl. other_default c x)
        then map (\<lambda>x. if other_default c x then x\<lparr>is_default := False\<rparr> else x) tbl
        else tbl)"

section \<open>\<open>Response.update_categories\<close>\<close>

text \<open>The first loop: an override row for every category not yet assigned.\<close>

fun add_overrides ::
  "Response \<Rightarrow> nat option \<Rightarrow> Category list \<Rightarrow> ResponseCategory list \<Rightarrow> ResponseCategory list" where
  "add_overrides resp u [] tbl = tbl"
| "add_overrides resp u (c # cs) tbl =
     add_overrides resp u cs
       (if \<not> assigned resp c tbl
        then tbl @ [\<lparr>rc_category = c, rc_response = resp_pk resp, is_override = True, user = u\<rparr>]
        else tbl)"

text \<open>
  The second loop deletes the rows of the response whose category is not among
  \<open>cats\<close>; model instances are equal when their primary keys are.
\<close>

definition update_categories ::
  "Response \<Rightarrow> Category list \<Rightarrow> nat option \<Rightarrow> ResponseCategory list \<Rightarrow> ResponseCategory list" where
  "update_categories resp cats u tbl =
     filter (\<lambda>rc. \<not> (rc_response rc = resp_pk resp
                      \<and> cat_pk (rc_category rc) \<notin> set (map cat_pk cats)))
       (add_overrides resp u cats tbl)"

section \<open>Notions of the specification and concrete inputs\<close>

text \<open>
  \<open>rule_matches E r txt\<close>: what the classifier computes for one rule (compile the
  stored pattern, search the lowered text); \<open>None\<close> when compiling raises.
\<close>

definition rule_matches :: "env \<Rightarrow> Rule \<Rightarrow> string \<Rightarrow> bool option" where
  "rule_matches E r txt = map_option (\<lambda>found. found (lower txt)) (re_compile E (regex r))"

text \<open>
  The five kinds of the specification, read off the two fields of the source: the
  word-list kinds from \<open>rule\<close>, the other three from \<open>rule_type\<close>.
\<close>

datatype kind = StartsWith | Contains | Regex | AllOfWords | OneOfWords

definition kind_of :: "Rule \<Rightarrow> kind option" where
  "kind_of r =
     (if rule r = Some 1 then Some AllOfWords
      else if rule r = Some 2 then Some OneOfWords
      else if rule_type r = TYPE_STARTSWITH then Some StartsWith
      else if rule_type r = TYPE_CONTAINS then Some Contains
      else if rule_type r = TYPE_REGEX then Some Regex
      else None)"

text \<open>The pattern derived from a kind and a raw string.\<close>

definition CompileRule :: "kind \<Rightarrow> string \<Rightarrow> string" where
  "CompileRule k raw =
     (case k of
        StartsWith \<Rightarrow> STARTSWITH_PATTERN_TEMPLATE raw
      | Contains \<Rightarrow> CONTAINS_PATTERN_TEMPLATE raw
      | Regex \<Rightarrow> raw
      | AllOfWords \<Rightarrow> all_words (split_comma raw) []
      | OneOfWords \<Rightarrow> one_words (split_comma raw) [])"

text \<open>The stored pattern is the one derived from the current kind and raw string.\<close>

definition in_sync :: "Rule \<Rightarrow> bool" where
  "in_sync r =
     (case (kind_of r, rule_string r) of
        (Some k, Some raw) \<Rightarrow> regex r = CompileRule k raw
      | _ \<Rightarrow> True)"

definition all_ab_rule :: Rule where
  "all_ab_rule = \<lparr>regex = [], rule_type = [], rule_string = Some ''a, b'', rule = Some 1\<rparr>"

definition all_ab_pattern :: string where
  "all_ab_pattern =
     ''(?=.*'' @ [bs] @ ''ba'' @ [bs] @ ''b)(?=.*'' @ [bs] @ ''bb'' @ [bs] @ ''b)''"

definition numeric_poll :: Poll where
  "numeric_poll =
     \<lparr>poll_pk = 1, poll_type = Some TYPE_NUMERIC, default_response = None, categories = []\<rparr>"

definition fresh_response :: "nat \<Rightarrow> Response" where
  "fresh_response pk =
     \<lparr>resp_pk = pk, has_errors = False, poll_text_value = None,
      poll_number_value = None, poll_location_value = None\<rparr>"

section \<open>Properties\<close>

subsection \<open>Numeric parsing\<close>

lemma regex_split_from_shape:
  "(\<exists>a. regex_split_from acc s = [Some a]) \<or>
   (\<exists>a g1 g2 t. regex_split_from acc s = Some a # Some g1 # g2 # t)"
  by (induction acc s rule: regex_split_from.induct) (auto split: option.splits)

lemma regex_split_second:
  "length (regex_split s) = 4 \<Longrightarrow> \<exists>g. regex_split s ! 1 = Some g"
  using regex_split_from_shape [of "[]" s] by (auto simp: regex_split_def)

lemma parse_answer_numeric:
  "parse_answer E (p\<lparr>poll_type := Some TYPE_NUMERIC\<rparr>) m (resp, rcs, out) =
     (if length (regex_split (message_text m)) = 4
      then (case regex_split (message_text m) ! 1 of
              Some g \<Rightarrow> Inr (resp\<lparr>poll_number_value := Some (Float (py_float g))\<rparr>, rcs, out)
            | None \<Rightarrow> Inl TypeError)
      else Inr (resp\<lparr>has_errors := True\<rparr>, rcs, out))"
  by (simp add: parse_answer_def TYPE_NUMERIC_def TYPE_LOCATION_def Let_def)

lemma split_age19: "regex_split ''age19'' = [Some ''age'', Some ''19'', None, Some []]"
  by (simp add: regex_split_def match_number_def is_digit_def)

lemma split_19years: "regex_split ''19 years'' = [Some [], Some ''19'', None, Some '' years'']"
  by (simp add: regex_split_def match_number_def is_digit_def)

lemma split_ugx:
  "regex_split ''ugx34.56shs'' = [Some ''ugx'', Some ''34.56'', Some ''.56'', Some ''shs'']"
  by (simp add: regex_split_def match_number_def is_digit_def)

lemma float_19: "py_float ''19'' = 19"
  by (simp add: py_float_def is_digit_def nat_of_digits_def)

lemma float_3456: "py_float ''34.56'' = 3456 / 100"
  by (simp add: py_float_def is_digit_def nat_of_digits_def)

text \<open>
  C2, as the claim states it, fails at \<open>age19\<close>: the split has four parts
  (\<open>age\<close>, \<open>19\<close>, no fraction, the empty rest), so the value 19 is stored and
  \<open>has_errors\<close> stays false.
\<close>

theorem C2_age19_counterexample:
  "process_response model_env numeric_poll 1 \<lparr>message_text = ''age19'', language = None\<rparr> =
     Inr (\<lparr>resp_pk = 1, has_errors = False, poll_text_value = None,
           poll_number_value = Some (Float 19), poll_location_value = None\<rparr>, [], None)"
  by (simp add: process_response_def numeric_poll_def parse_answer_def TYPE_NUMERIC_def
      TYPE_LOCATION_def split_age19 float_19 default_fallback_def select_reply_def
      order_by_priority_def)

text \<open>
  C2, amended: for a Numeric poll the text is split on the number pattern; when the split
  has four parts the number (its second part) is stored as the value and the error flag
  is left alone, otherwise the error flag is set. \<open>age19\<close> and \<open>19 years\<close> give 19,
  \<open>ugx34.56shs\<close> gives 34.56.
\<close>

theorem C2_numeric_parse:
  "(length (regex_split (message_text m)) = 4 \<longrightarrow>
      (\<exists>g. regex_split (message_text m) ! 1 = Some g \<and>
           parse_answer E (p\<lparr>poll_type := Some TYPE_NUMERIC\<rparr>) m (resp, rcs, out) =
             Inr (resp\<lparr>poll_number_value := Some (Float (py_float g))\<rparr>, rcs, out))) \<and>
   (length (regex_split (message_text m)) \<noteq> 4 \<longrightarrow>
      parse_answer E (p\<lparr>poll_type := Some TYPE_NUMERIC\<rparr>) m (resp, rcs, out) =
        Inr (resp\<lparr>has_errors := True\<rparr>, rcs, out)) \<and>
   parse_answer E (p\<lparr>poll_type := Some TYPE_NUMERIC\<rparr>)
       \<lparr>message_text = ''age19'', language = l\<rparr> (resp, rcs, out) =
     Inr (resp\<lparr>poll_number_value := Some (Float 19)\<rparr>, rcs, out) \<and>
   parse_answer E (p\<lparr>poll_type := Some TYPE_NUMERIC\<rparr>)
       \<lparr>message_text = ''19 years'', language = l\<rparr> (resp, rcs, out) =
     Inr (resp\<lparr>poll_number_value := Some (Float 19)\<rparr>, rcs, out) \<and>
   parse_answer E (p\<lparr>poll_type := Some TYPE_NUMERIC\<rparr>)
       \<lparr>message_text = ''ugx34.56shs'', language = l\<rparr> (resp, rcs, out) =
     Inr (resp\<lparr>poll_number_value := Some (Float (3456 / 100))\<rparr>, rcs, out)"
proof -
  have a: "length (regex_split (message_text m)) = 4 \<longrightarrow>
      (\<exists>g. regex_split (message_text m) ! 1 = Some g \<and>
           parse_answer E (p\<lparr>poll_type := Some TYPE_NUMERIC\<rparr>) m (resp, rcs, out) =
             Inr (resp\<lparr>poll_number_value := Some (Float (py_float g))\<rparr>, rcs, out))"
    using regex_split_second [of "message_text m"] by (auto simp: parse_answer_numeric)
  have b: "length (regex_split (message_text m)) \<noteq> 4 \<longrightarrow>
      parse_answer E (p\<lparr>poll_type := Some TYPE_NUMERIC\<rparr>) m (resp, rcs, out) =
        Inr (resp\<lparr>has_errors := True\<rparr>, rcs, out)"
    by (simp add: parse_answer_numeric)
  have c: "parse_answer E (p\<lparr>poll_type := Some TYPE_NUMERIC\<rparr>)
       \<lparr>message_text = ''age19'', language = l\<rparr> (resp, rcs, out) =
     Inr (resp\<lparr>poll_number_value := Some (Float 19)\<rparr>, rcs, out)"
    by (simp add: parse_answer_numeric split_age19 float_19)
  have d: "parse_answer E (p\<lparr>poll_type := Some TYPE_NUMERIC\<rparr>)
       \<lparr>message_text = ''19 years'', language = l\<rparr> (resp, rcs, out) =
     Inr (resp\<lparr>poll_number_value := Some (Float 19)\<rparr>, rcs, out)"
    by (simp add: parse_answer_numeric split_19years float_19)
  have e: "parse_answer E (p\<lparr>poll_type := Some TYPE_NUMERIC\<rparr>)
       \<lparr>message_text = ''ugx34.56shs'', language = l\<rparr> (resp, rcs, out) =
     Inr (resp\<lparr>poll_number_value := Some (Float (3456 / 100))\<rparr>, rcs, out)"
    by (simp add: parse_answer_numeric split_ugx float_3456)
  from a b c d e show ?thesis by blast
qed

lemma split_1or2:
  "regex_split ''1 or 2'' = [Some [], Some ''1'', None, Some '' or '', Some ''2'', None, Some []]"
  by (simp add: regex_split_def match_number_def is_digit_def)

theorem C2_numeric_parse_witness:
  "length (regex_split ''19 years'') = 4 \<and>
   parse_answer model_env (numeric_poll\<lparr>poll_type := Some TYPE_NUMERIC\<rparr>)
       \<lparr>message_text = ''19 years'', language = None\<rparr> (fresh_response 1, [], None) =
     Inr ((fresh_response 1)\<lparr>poll_number_value := Some (Float 19)\<rparr>, [], None) \<and>
   length (regex_split ''1 or 2'') \<noteq> 4 \<and>
   parse_answer model_env (numeric_poll\<lparr>poll_type := Some TYPE_NUMERIC\<rparr>)
       \<lparr>message_text = ''1 or 2'', language = None\<rparr> (fresh_response 1, [], None) =
     Inr ((fresh_response 1)\<lparr>has_errors := True\<rparr>, [], None)"
proof -
  define m1 where "m1 = \<lparr>message_text = ''19 years'', language = None\<rparr>"
  define m2 where "m2 = \<lparr>message_text = ''1 or 2'', language = None\<rparr>"
  have h1: "length (regex_split (message_text m1)) = 4"
    by (simp add: m1_def split_19years)
  have h2: "length (regex_split (message_text m2)) \<noteq> 4"
    by (simp add: m2_def split_1or2)
  have t1: "length (regex_split (message_text m1)) = 4 \<longrightarrow>
      (\<exists>g. regex_split (message_text m1) ! 1 = Some g \<and>
           parse_answer model_env (numeric_poll\<lparr>poll_type := Some TYPE_NUMERIC\<rparr>) m1
             (fresh_response 1, [], None) =
             Inr ((fresh_response 1)\<lparr>poll_number_value := Some (Float (py_float g))\<rparr>, [], None))"
    using C2_numeric_parse [of m1 model_env numeric_poll "fresh_response 1" "[]" None None]
    by (rule conjunct1)
  have t2: "length (regex_split (message_text m2)) \<noteq> 4 \<longrightarrow>
      parse_answer model_env (numeric_poll\<lparr>poll_type := Some TYPE_NUMERIC\<rparr>) m2
        (fresh_response 1, [], None) = Inr ((fresh_response 1)\<lparr>has_errors := True\<rparr>, [], None)"
    using C2_numeric_parse [of m2 model_env numeric_poll "fresh_response 1" "[]" None None]
    by (rule conjunct1 [OF conjunct2])
  from t1 h1 obtain g where g: "regex_split (message_text m1) ! 1 = Some g"
    and r1: "parse_answer model_env (numeric_poll\<lparr>poll_type := Some TYPE_NUMERIC\<rparr>) m1
             (fresh_response 1, [], None) =
             Inr ((fresh_response 1)\<lparr>poll_number_value := Some (Float (py_float g))\<rparr>, [], None)"
    by blast
  from g have "g = ''19''"
    by (simp add: m1_def split_19years)
  with r1 have r1': "parse_answer model_env (numeric_poll\<lparr>poll_type := Some TYPE_NUMERIC\<rparr>) m1
             (fresh_response 1, [], None) =
             Inr ((fresh_response 1)\<lparr>poll_number_value := Some (Float 19)\<rparr>, [], None)"
    by (simp add: float_19)
  from t2 h2 have r2: "parse_answer model_env (numeric_poll\<lparr>poll_type := Some TYPE_NUMERIC\<rparr>) m2
        (fresh_response 1, [], None) = Inr ((fresh_response 1)\<lparr>has_errors := True\<rparr>, [], None)"
    by blast
  from h1 h2 r1' r2 show ?thesis
    by (simp add: m1_def m2_def)
qed

subsection \<open>The all-of-words pattern\<close>

lemma save_all_ab: "Rule_save all_ab_rule = Inr (all_ab_rule\<lparr>regex := all_ab_pattern\<rparr>)"
  by (simp add: Rule_save_def all_ab_rule_def all_ab_pattern_def get_regex_def all_template_def
      re_escape_def strip_def is_space_def is_alnum_def)

lemma parse_all_ab:
  "parse_re all_ab_pattern [(False, [], [])] =
     Pattern [[Look [[Star Dot, WordB, Atom (Lit CHR ''a''), WordB]],
               Look [[Star Dot, WordB, Atom (Lit CHR ''b''), WordB]]]]"
  by (simp add: all_ab_pattern_def bs_def is_alnum_def)

lemma matches_all_ab:
  "rule_matches model_env (all_ab_rule\<lparr>regex := all_ab_pattern\<rparr>) txt =
     Some (search [[Look [[Star Dot, WordB, Atom (Lit CHR ''a''), WordB]],
                    Look [[Star Dot, WordB, Atom (Lit CHR ''b''), WordB]]]] (lower txt))"
  by (simp add: rule_matches_def model_env_def re_model_def parse_all_ab)

text \<open>
  C4, as the claim states it, fails: the pattern does not match \<open>xb a y\<close>, where
  \<open>b\<close> occurs only at the end of the word \<open>xb\<close> and so not between word boundaries.
\<close>

theorem C4_xb_a_y_counterexample:
  "Rule_save all_ab_rule = Inr (all_ab_rule\<lparr>regex := all_ab_pattern\<rparr>) \<and>
   parse_re all_ab_pattern [(False, [], [])] \<noteq> Unsupported \<and>
   rule_matches model_env (all_ab_rule\<lparr>regex := all_ab_pattern\<rparr>) ''xb a y'' = Some False"
  by (simp add: save_all_ab parse_all_ab matches_all_ab lower_def lower_char_def search_def
      atom_ok_def at_boundary_def is_word_def is_alnum_def)

text \<open>
  C4, amended: the pattern compiled for an all-of-words rule with raw string \<open>a, b\<close> is
  two lookaheads, one for each word between word boundaries; it matches \<open>b a y\<close> and
  matches neither \<open>xb a y\<close> nor \<open>xb y\<close>.
\<close>

theorem C4_all_of_words:
  "Rule_save all_ab_rule = Inr (all_ab_rule\<lparr>regex := all_ab_pattern\<rparr>) \<and>
   rule_matches model_env (all_ab_rule\<lparr>regex := all_ab_pattern\<rparr>) ''b a y'' = Some True \<and>
   rule_matches model_env (all_ab_rule\<lparr>regex := all_ab_pattern\<rparr>) ''xb a y'' = Some False \<and>
   rule_matches model_env (all_ab_rule\<lparr>regex := all_ab_pattern\<rparr>) ''xb y'' = Some False"
  by (simp add: save_all_ab matches_all_ab lower_def lower_char_def search_def
      atom_ok_def at_boundary_def is_word_def is_alnum_def)

end
